theory Spec2Isabelle
  imports Main "HOL-Library.Word" "HOL-Library.Sublist"
begin

unbundle bit_operations_syntax

section \<open>Python values used by cosmos_tls_scanner.py\<close>

text \<open>
  A Python \<^verbatim>\<open>bytes\<close> object is a list of 8-bit words.  A Python \<^verbatim>\<open>str\<close> is a
  \<^typ>\<open>string\<close>: the character with code \<open>n\<close> stands for the code point \<open>n\<close>, so the
  model covers the strings whose code points are below 256 (ASCII and Latin-1), which is
  what the type \<^typ>\<open>char\<close> can hold.  Exceptions are values of \<open>py_error\<close>; a function
  that may raise returns \<open>py_error + 'a\<close>.
\<close>

type_synonym byte = "8 word"
type_synonym bytes = "byte list"

datatype py_error =
    ValueError            \<comment> \<open>\<^verbatim>\<open>str.encode('ascii')\<close> inside \<^verbatim>\<open>base64.b64decode\<close>\<close>
  | BinasciiError         \<comment> \<open>\<^verbatim>\<open>binascii.Error\<close>, raised by \<^verbatim>\<open>binascii.a2b_base64\<close>\<close>
  | RequestException string  \<comment> \<open>any exception raised by \<^verbatim>\<open>session.request\<close>\<close>

definition code_point :: "char \<Rightarrow> nat" where
  "code_point c = of_char c"

subsection \<open>\<^verbatim>\<open>str.lower\<close>, \<^verbatim>\<open>str.strip\<close>, \<^verbatim>\<open>str.encode("utf-8")\<close>, \<^verbatim>\<open>str(int)\<close>\<close>

text \<open>
  Below code point 256, \<^verbatim>\<open>str.lower\<close> changes the letters A-Z and the Latin-1
  capitals U+00C0 .. U+00DE (U+00D7, the multiplication sign, is no letter); each goes
  to the code point 32 above it.
\<close>

definition lower_char :: "char \<Rightarrow> char" where
  "lower_char c =
     (let n = code_point c
      in if (65 \<le> n \<and> n \<le> 90) \<or> (192 \<le> n \<and> n \<le> 222 \<and> n \<noteq> 215)
         then char_of (n + 32) else c)"

definition lower :: "string \<Rightarrow> string" where
  "lower s = map lower_char s"

text \<open>
  \<^verbatim>\<open>str.strip()\<close> removes leading and trailing white space; below code point 256 the
  white-space characters are 9 .. 13, 28 .. 32, 133 and 160.
\<close>

definition isspace :: "char \<Rightarrow> bool" where
  "isspace c =
     (let n = code_point c
      in (9 \<le> n \<and> n \<le> 13) \<or> (28 \<le> n \<and> n \<le> 32) \<or> n = 133 \<or> n = 160)"

definition strip :: "string \<Rightarrow> string" where
  "strip s = rev (dropWhile isspace (rev (dropWhile isspace s)))"

text \<open>UTF-8: one byte below 128, two bytes from 128 to 255.\<close>

definition encode_utf8_char :: "char \<Rightarrow> bytes" where
  "encode_utf8_char c =
     (let n = code_point c
      in if n < 128 then [of_nat n] else [of_nat (192 + n div 64), of_nat (128 + n mod 64)])"

definition encode_utf8 :: "string \<Rightarrow> bytes" where
  "encode_utf8 s = concat (map encode_utf8_char s)"

fun digits :: "nat \<Rightarrow> string" where
  "digits n = (if n < 10 then [char_of (48 + n)] else digits (n div 10) @ [char_of (48 + n mod 10)])"

declare digits.simps [simp del]

definition str_int :: "int \<Rightarrow> string" where
  "str_int i = (if i < 0 then CHR ''-'' # digits (nat (- i)) else digits (nat i))"

text \<open>Truth value of a Python string: the empty string and \<^verbatim>\<open>None\<close> are false.\<close>

definition truthy_str :: "string option \<Rightarrow> bool" where
  "truthy_str s = (case s of None \<Rightarrow> False | Some t \<Rightarrow> t \<noteq> [])"

section \<open>The \<^verbatim>\<open>base64\<close> module\<close>

definition b64_alphabet :: string where
  "b64_alphabet = ''ABCDEFGHIJKLMNOPQRSTUVWXYZabcdefghijklmnopqrstuvwxyz0123456789+/''"

definition table_b2a_base64 :: "byte \<Rightarrow> char" where
  "table_b2a_base64 x = b64_alphabet ! unat (x AND 0x3f)"

text \<open>
  \<^verbatim>\<open>binascii.b2a_base64(data, newline=False)\<close>, which is \<^verbatim>\<open>base64.b64encode\<close>: three
  bytes give four characters of six bits each, and one or two bytes left over are padded
  with \<open>=\<close>.  The result is ASCII; the model writes it as the \<^typ>\<open>string\<close> that
  \<^verbatim>\<open>.decode("utf-8")\<close> makes of it.
\<close>

fun b64encode :: "bytes \<Rightarrow> string" where
  "b64encode [] = []"
| "b64encode [a] =
     [table_b2a_base64 (drop_bit 2 a), table_b2a_base64 (push_bit 4 (a AND 3)), CHR ''='', CHR ''='']"
| "b64encode [a, b] =
     [table_b2a_base64 (drop_bit 2 a),
      table_b2a_base64 (push_bit 4 (a AND 3) OR drop_bit 4 b),
      table_b2a_base64 (push_bit 2 (b AND 0xf)), CHR ''='']"
| "b64encode (a # b # c # rest) =
     [table_b2a_base64 (drop_bit 2 a),
      table_b2a_base64 (push_bit 4 (a AND 3) OR drop_bit 4 b),
      table_b2a_base64 (push_bit 2 (b AND 0xf) OR drop_bit 6 c),
      table_b2a_base64 c] @ b64encode rest"

text \<open>\<^verbatim>\<open>binascii.b2a_base64(data)\<close>: the same, with a newline appended.\<close>

definition b2a_base64 :: "bytes \<Rightarrow> string" where
  "b2a_base64 d = b64encode d @ [CHR 0x0A]"

text \<open>
  \<^verbatim>\<open>base64.encodebytes(s)\<close>: the input is cut into chunks of \<^verbatim>\<open>MAXBINSIZE\<close> = 57 bytes
  (76 characters), each chunk is encoded by \<^verbatim>\<open>b2a_base64\<close>, and the pieces are joined.
\<close>

definition MAXBINSIZE :: nat where
  "MAXBINSIZE = (76 div 4) * 3"

function encodebytes :: "bytes \<Rightarrow> string" where
  "encodebytes s =
     (if s = [] then [] else b2a_base64 (take MAXBINSIZE s) @ encodebytes (drop MAXBINSIZE s))"
  by pat_completeness auto
termination
  by (relation "measure length") (auto simp: MAXBINSIZE_def)

declare encodebytes.simps [simp del]

text \<open>
  \<^verbatim>\<open>binascii.a2b_base64\<close> in its default, non-strict mode, which is what
  \<^verbatim>\<open>base64.b64decode(s)\<close> calls: a character outside the alphabet is skipped; a pad
  character ends the input once it completes a group of four; at the end of the input an
  incomplete group raises \<^verbatim>\<open>binascii.Error\<close>.  The arguments are the position in the
  current group, the bits left over from it, the number of pad characters seen in a row,
  and the bytes produced so far.
\<close>

definition table_a2b_base64 :: "char \<Rightarrow> nat option" where
  "table_a2b_base64 c =
     (let n = code_point c
      in if 65 \<le> n \<and> n \<le> 90 then Some (n - 65)
         else if 97 \<le> n \<and> n \<le> 122 then Some (n - 71)
         else if 48 \<le> n \<and> n \<le> 57 then Some (n + 4)
         else if n = 43 then Some 62
         else if n = 47 then Some 63
         else None)"

fun a2b_loop :: "nat \<Rightarrow> nat \<Rightarrow> nat \<Rightarrow> bytes \<Rightarrow> string \<Rightarrow> py_error + bytes" where
  "a2b_loop quad_pos leftchar pads acc [] =
     (if quad_pos \<noteq> 0 then Inl BinasciiError else Inr acc)"
| "a2b_loop quad_pos leftchar pads acc (c # cs) =
     (if c = CHR ''='' then
        (if quad_pos \<ge> 2 \<and> quad_pos + (pads + 1) \<ge> 4 then Inr acc
         else a2b_loop quad_pos leftchar (if quad_pos \<ge> 2 then pads + 1 else pads) acc cs)
      else
        (case table_a2b_base64 c of
           None \<Rightarrow> a2b_loop quad_pos leftchar pads acc cs
         | Some v \<Rightarrow>
             (if quad_pos = 0 then a2b_loop 1 v 0 acc cs
              else if quad_pos = 1 then
                a2b_loop 2 (v mod 16) 0 (acc @ [of_nat (leftchar * 4 + v div 16)]) cs
              else if quad_pos = 2 then
                a2b_loop 3 (v mod 4) 0 (acc @ [of_nat (leftchar * 16 + v div 4)]) cs
              else a2b_loop 0 0 0 (acc @ [of_nat (leftchar * 64 + v)]) cs)))"

definition a2b_base64 :: "string \<Rightarrow> py_error + bytes" where
  "a2b_base64 s = a2b_loop 0 0 0 [] s"

text \<open>
  \<^verbatim>\<open>base64.b64decode(s)\<close> for a \<^verbatim>\<open>str\<close> argument: \<^verbatim>\<open>s.encode('ascii')\<close> raises
  \<^verbatim>\<open>ValueError\<close> on a non-ASCII character; then \<^verbatim>\<open>a2b_base64\<close>.
\<close>

definition b64decode :: "string \<Rightarrow> py_error + bytes" where
  "b64decode s =
     (if list_all (\<lambda>c. code_point c < 128) s then a2b_base64 s else Inl ValueError)"

section \<open>\<^verbatim>\<open>urllib.parse.quote\<close>\<close>

text \<open>
  \<^verbatim>\<open>quote(string)\<close> with the default \<^verbatim>\<open>safe='/'\<close>: the string is encoded in UTF-8;
  letters, digits and the characters \<^verbatim>\<open>_.-~/\<close> stay, every other byte becomes \<open>%XX\<close>
  with upper-case hexadecimal digits.
\<close>

definition hex_digit :: "nat \<Rightarrow> char" where
  "hex_digit n = ''0123456789ABCDEF'' ! (n mod 16)"

definition quote_safe :: "nat \<Rightarrow> bool" where
  "quote_safe n \<longleftrightarrow>
     (65 \<le> n \<and> n \<le> 90) \<or> (97 \<le> n \<and> n \<le> 122) \<or> (48 \<le> n \<and> n \<le> 57)
     \<or> n = 95 \<or> n = 46 \<or> n = 45 \<or> n = 126 \<or> n = 47"

definition quoter :: "byte \<Rightarrow> string" where
  "quoter b =
     (let n = unat b
      in if quote_safe n then [char_of n] else [CHR ''%'', hex_digit (n div 16), hex_digit n])"

definition quote :: "string \<Rightarrow> string" where
  "quote s = concat (map quoter (encode_utf8 s))"

section \<open>\<^verbatim>\<open>hashlib.sha256\<close> and \<^verbatim>\<open>hmac.digest\<close>\<close>

text \<open>
  SHA-256 as in FIPS 180-4, on 32-bit words: the message is padded with the byte 0x80,
  zero bytes and its length in bits as a 64-bit big-endian number, to a multiple of 64
  bytes; each block of 64 bytes is expanded to 64 words and run through 64 rounds.
\<close>

type_synonym word32 = "32 word"
type_synonym sha_state =
  "word32 \<times> word32 \<times> word32 \<times> word32 \<times> word32 \<times> word32 \<times> word32 \<times> word32"

definition rotr :: "nat \<Rightarrow> word32 \<Rightarrow> word32" where
  "rotr n x = word_rotr n x"

definition Ch :: "word32 \<Rightarrow> word32 \<Rightarrow> word32 \<Rightarrow> word32" where
  "Ch x y z = (x AND y) XOR (NOT x AND z)"

definition Maj :: "word32 \<Rightarrow> word32 \<Rightarrow> word32 \<Rightarrow> word32" where
  "Maj x y z = (x AND y) XOR (x AND z) XOR (y AND z)"

definition Sigma0 :: "word32 \<Rightarrow> word32" where
  "Sigma0 x = rotr 2 x XOR rotr 13 x XOR rotr 22 x"

definition Sigma1 :: "word32 \<Rightarrow> word32" where
  "Sigma1 x = rotr 6 x XOR rotr 11 x XOR rotr 25 x"

definition sigma0 :: "word32 \<Rightarrow> word32" where
  "sigma0 x = rotr 7 x XOR rotr 18 x XOR drop_bit 3 x"

definition sigma1 :: "word32 \<Rightarrow> word32" where
  "sigma1 x = rotr 17 x XOR rotr 19 x XOR drop_bit 10 x"

definition K256 :: "word32 list" where
  "K256 =
     [0x428A2F98, 0x71374491, 0xB5C0FBCF, 0xE9B5DBA5, 0x3956C25B, 0x59F111F1,
      0x923F82A4, 0xAB1C5ED5, 0xD807AA98, 0x12835B01, 0x243185BE, 0x550C7DC3,
      0x72BE5D74, 0x80DEB1FE, 0x9BDC06A7, 0xC19BF174, 0xE49B69C1, 0xEFBE4786,
      0x0FC19DC6, 0x240CA1CC, 0x2DE92C6F, 0x4A7484AA, 0x5CB0A9DC, 0x76F988DA,
      0x983E5152, 0xA831C66D, 0xB00327C8, 0xBF597FC7, 0xC6E00BF3, 0xD5A79147,
      0x06CA6351, 0x14292967, 0x27B70A85, 0x2E1B2138, 0x4D2C6DFC, 0x53380D13,
      0x650A7354, 0x766A0ABB, 0x81C2C92E, 0x92722C85, 0xA2BFE8A1, 0xA81A664B,
      0xC24B8B70, 0xC76C51A3, 0xD192E819, 0xD6990624, 0xF40E3585, 0x106AA070,
      0x19A4C116, 0x1E376C08, 0x2748774C, 0x34B0BCB5, 0x391C0CB3, 0x4ED8AA4A,
      0x5B9CCA4F, 0x682E6FF3, 0x748F82EE, 0x78A5636F, 0x84C87814, 0x8CC70208,
      0x90BEFFFA, 0xA4506CEB, 0xBEF9A3F7, 0xC67178F2]"

definition sha256_init :: sha_state where
  "sha256_init =
     (0x6A09E667, 0xBB67AE85, 0x3C6EF372, 0xA54FF53A, 0x510E527F, 0x9B05688C, 0x1F83D9AB,
      0x5BE0CD19)"

definition be_word32 :: "bytes \<Rightarrow> word32" where
  "be_word32 bs = foldl (\<lambda>w b. push_bit 8 w OR ucast b) 0 bs"

definition word32_bytes :: "word32 \<Rightarrow> bytes" where
  "word32_bytes w = [ucast (drop_bit 24 w), ucast (drop_bit 16 w), ucast (drop_bit 8 w), ucast w]"

definition block_words :: "bytes \<Rightarrow> word32 list" where
  "block_words blk = map (\<lambda>i. be_word32 (take 4 (drop (4 * i) blk))) [0..<16]"

fun schedule :: "nat \<Rightarrow> word32 list \<Rightarrow> word32 list" where
  "schedule 0 w = w"
| "schedule (Suc n) w =
     (let t = length w
      in schedule n
           (w @ [sigma1 (w ! (t - 2)) + w ! (t - 7) + sigma0 (w ! (t - 15)) + w ! (t - 16)]))"

definition sha_round :: "sha_state \<Rightarrow> word32 \<times> word32 \<Rightarrow> sha_state" where
  "sha_round s kw =
     (case s of (a, b, c, d, e, f, g, h) \<Rightarrow>
        (let t1 = h + Sigma1 e + Ch e f g + fst kw + snd kw;
             t2 = Sigma0 a + Maj a b c
         in (t1 + t2, a, b, c, d + t1, e, f, g)))"

definition sha_add :: "sha_state \<Rightarrow> sha_state \<Rightarrow> sha_state" where
  "sha_add s s' =
     (case s of (a, b, c, d, e, f, g, h) \<Rightarrow>
        (case s' of (a', b', c', d', e', f', g', h') \<Rightarrow>
           (a + a', b + b', c + c', d + d', e + e', f + f', g + g', h + h')))"

definition sha_compress :: "sha_state \<Rightarrow> bytes \<Rightarrow> sha_state" where
  "sha_compress s blk = sha_add s (foldl sha_round s (zip K256 (schedule 48 (block_words blk))))"

function sha_blocks :: "sha_state \<Rightarrow> bytes \<Rightarrow> sha_state" where
  "sha_blocks s m =
     (if length m < 64 then s else sha_blocks (sha_compress s (take 64 m)) (drop 64 m))"
  by pat_completeness auto
termination
  by (relation "measure (\<lambda>(s, m). length m)") auto

declare sha_blocks.simps [simp del]

definition word64_bytes :: "64 word \<Rightarrow> bytes" where
  "word64_bytes w = map (\<lambda>i. ucast (drop_bit (8 * (7 - i)) w)) [0..<8]"

definition sha_pad :: "bytes \<Rightarrow> bytes" where
  "sha_pad m =
     m @ [0x80] @ replicate ((119 - length m mod 64) mod 64) 0
       @ word64_bytes (of_nat (8 * length m))"

definition sha_output :: "sha_state \<Rightarrow> bytes" where
  "sha_output s =
     (case s of (a, b, c, d, e, f, g, h) \<Rightarrow> concat (map word32_bytes [a, b, c, d, e, f, g, h]))"

definition sha256 :: "bytes \<Rightarrow> bytes" where
  "sha256 m = sha_output (sha_blocks sha256_init (sha_pad m))"

text \<open>
  \<^verbatim>\<open>hmac.digest(key, msg, hashlib.sha256)\<close> (RFC 2104, block size 64): a key longer
  than a block is hashed first, the key is padded with zero bytes to a block, and the
  message is hashed under the inner and then the outer padded key.
\<close>

definition hmac_digest :: "bytes \<Rightarrow> bytes \<Rightarrow> bytes" where
  "hmac_digest key msg =
     (let k0 = (if length key > 64 then sha256 key else key);
          k = k0 @ replicate (64 - length k0) 0
      in sha256 (map (\<lambda>b. b XOR 0x5c) k @ sha256 (map (\<lambda>b. b XOR 0x36) k @ msg)))"

section \<open>The signer: \<^verbatim>\<open>_get_auth_header\<close>\<close>

text \<open>
  \<^verbatim>\<open>_get_auth_header(key, verb, resource_type, resource_link, date)\<close>.  The payload is
  built first; \<^verbatim>\<open>base64.b64decode(key)\<close> is evaluated before \<^verbatim>\<open>hmac.digest\<close> is called and
  its exception leaves the function; \<^verbatim>\<open>signature[:-1]\<close> drops the last character.
\<close>

definition get_auth_header ::
  "string \<Rightarrow> string \<Rightarrow> string \<Rightarrow> string \<Rightarrow> string \<Rightarrow> py_error + string" where
  "get_auth_header key verb resource_type resource_link date =
     (let payload = lower verb @ [CHR 0x0A] @ lower resource_type @ [CHR 0x0A] @ resource_link
                      @ [CHR 0x0A] @ lower date @ [CHR 0x0A, CHR 0x0A]
      in case b64decode key of
           Inl e \<Rightarrow> Inl e
         | Inr k \<Rightarrow>
             (let digest = hmac_digest k (encode_utf8 payload);
                  signature = encodebytes digest
              in Inr (quote (''type=master&ver=1.0&sig='' @ butlast signature))))"

section \<open>\<^verbatim>\<open>datetime.strftime\<close>\<close>

text \<open>
  A \<^verbatim>\<open>datetime\<close> object as \<^verbatim>\<open>datetime.utcnow()\<close> returns it (the microseconds play no
  part).  Python keeps \<open>1 \<le> month \<le> 12\<close> and the day within the month.  The week day is
  computed as \<^verbatim>\<open>datetime.weekday\<close> does, from the ordinal of the date, Monday being 0.
\<close>

record datetime =
  dt_year :: nat
  dt_month :: nat
  dt_day :: nat
  dt_hour :: nat
  dt_minute :: nat
  dt_second :: nat

definition is_leap :: "nat \<Rightarrow> bool" where
  "is_leap y \<longleftrightarrow> y mod 4 = 0 \<and> (y mod 100 \<noteq> 0 \<or> y mod 400 = 0)"

definition days_before_year :: "nat \<Rightarrow> nat" where
  "days_before_year year = (let y = year - 1 in y * 365 + y div 4 - y div 100 + y div 400)"

definition DAYS_BEFORE_MONTH :: "nat list" where
  "DAYS_BEFORE_MONTH = [0, 0, 31, 59, 90, 120, 151, 181, 212, 243, 273, 304, 334]"

definition days_before_month :: "nat \<Rightarrow> nat \<Rightarrow> nat" where
  "days_before_month year month =
     DAYS_BEFORE_MONTH ! month + (if month > 2 \<and> is_leap year then 1 else 0)"

definition ymd2ord :: "nat \<Rightarrow> nat \<Rightarrow> nat \<Rightarrow> nat" where
  "ymd2ord year month day = days_before_year year + days_before_month year month + day"

definition weekday :: "datetime \<Rightarrow> nat" where
  "weekday d = (ymd2ord (dt_year d) (dt_month d) (dt_day d) + 6) mod 7"

definition two_digits :: "nat \<Rightarrow> string" where
  "two_digits n = [char_of (48 + n div 10 mod 10), char_of (48 + n mod 10)]"

text \<open>
  \<^verbatim>\<open>date.strftime("%a, %d %b %Y %H:%M:%S GMT")\<close> in the C locale: abbreviated day and
  month names, two-digit day, hour, minute and second, the year in decimal.
\<close>

definition strftime :: "datetime \<Rightarrow> string" where
  "strftime d =
     [''Mon'', ''Tue'', ''Wed'', ''Thu'', ''Fri'', ''Sat'', ''Sun''] ! weekday d @ '', ''
     @ two_digits (dt_day d) @ '' ''
     @ [''Jan'', ''Feb'', ''Mar'', ''Apr'', ''May'', ''Jun'', ''Jul'', ''Aug'', ''Sep'', ''Oct'', ''Nov'',
        ''Dec''] ! (dt_month d - 1) @ '' ''
     @ digits (dt_year d) @ '' ''
     @ two_digits (dt_hour d) @ '':'' @ two_digits (dt_minute d) @ '':'' @ two_digits (dt_second d)
     @ '' GMT''"

section \<open>The world outside: clock, URL joining, HTTPS session, standard output\<close>

text \<open>
  A request as \<^verbatim>\<open>session.request(verb, full_url, headers=headers, data=body)\<close> sends it
  through the \<^verbatim>\<open>SSLAdapter\<close> mounted with \<^verbatim>\<open>ssl_version\<close>; the headers are kept in the
  order of the dictionary literal.
\<close>

record request =
  req_ssl_version :: int
  req_verb :: string
  req_url :: string
  req_headers :: "(string \<times> string) list"
  req_body :: "string option"

record response =
  status_code :: int
  resp_text :: string

text \<open>
  The world gives the reading of the clock and the answer of the network, both as functions
  of the number of requests made before; \<^verbatim>\<open>session.request\<close> either returns a response or
  raises.  \<^verbatim>\<open>urllib.parse.urljoin\<close> is taken from the world as well.
\<close>

record world =
  utcnow :: "nat \<Rightarrow> datetime"
  urljoin :: "string \<Rightarrow> string \<Rightarrow> string"
  session_request :: "nat \<Rightarrow> request \<Rightarrow> py_error + response"

text \<open>What the run has done so far: the texts printed and the requests made, oldest first.\<close>

record state =
  out :: "string list"
  reqs :: "request list"

fun join_space :: "string list \<Rightarrow> string" where
  "join_space [] = []"
| "join_space [x] = x"
| "join_space (x # y # ys) = x @ '' '' @ join_space (y # ys)"

text \<open>\<^verbatim>\<open>print(a, b, ...)\<close>: the arguments separated by one space.\<close>

definition py_print :: "string list \<Rightarrow> state \<Rightarrow> state" where
  "py_print xs st = st\<lparr>out := out st @ [join_space xs]\<rparr>"

text \<open>\<^verbatim>\<open>response.ok\<close>: false exactly for the status codes from 400 to 599.\<close>

definition ok :: "response \<Rightarrow> bool" where
  "ok r \<longleftrightarrow> \<not> (400 \<le> status_code r \<and> status_code r < 600)"

section \<open>The prober\<close>

definition send_request ::
  "world \<Rightarrow> string \<Rightarrow> int \<Rightarrow> string \<Rightarrow> string \<Rightarrow> string \<Rightarrow> (string \<times> string) list
     \<Rightarrow> string option \<Rightarrow> state \<Rightarrow> state \<times> (py_error + response)" where
  "send_request w uri ssl_version verb resource_type resource_link headers body st =
     (let full_url = urljoin w uri (resource_link @ ''/'');
          full_url = urljoin w full_url resource_type;
          rq = \<lparr>req_ssl_version = ssl_version, req_verb = verb, req_url = full_url,
                req_headers = headers, req_body = body\<rparr>
      in (st\<lparr>reqs := reqs st @ [rq]\<rparr>, session_request w (length (reqs st)) rq))"

definition list_databases ::
  "world \<Rightarrow> string \<Rightarrow> string \<Rightarrow> int \<Rightarrow> state \<Rightarrow> state \<times> (py_error + response)" where
  "list_databases w uri key ssl_version st =
     (let verb = ''get'';
          resource_type = ''dbs'';
          resource_link = [];
          date = utcnow w (length (reqs st));
          date_str = lower (strftime date)
      in case get_auth_header key verb resource_type resource_link date_str of
           Inl e \<Rightarrow> (st, Inl e)
         | Inr auth \<Rightarrow>
             send_request w uri ssl_version verb resource_type resource_link
               [(''authorization'', auth),
                (''x-ms-version'', ''2017-02-22''),
                (''x-ms-date'', date_str),
                (''x-ms-max-item-count'', ''1''),
                (''Cache-Control'', ''no-cache'')]
               None st)"

definition basic_query ::
  "world \<Rightarrow> string \<Rightarrow> string \<Rightarrow> int \<Rightarrow> string \<Rightarrow> string \<Rightarrow> state
     \<Rightarrow> state \<times> (py_error + response)" where
  \<open>basic_query w uri key ssl_version database_name container_name st =
     (let verb = ''post'';
          resource_type = ''docs'';
          resource_link = ''dbs/'' @ database_name @ ''/colls/'' @ container_name;
          date = utcnow w (length (reqs st));
          date_str = lower (strftime date)
      in case get_auth_header key verb resource_type resource_link date_str of
           Inl e \<Rightarrow> (st, Inl e)
         | Inr auth \<Rightarrow>
             send_request w uri ssl_version verb resource_type resource_link
               [(''content-type'', ''application/query+json''),
                (''authorization'', auth),
                (''x-ms-version'', ''2017-02-22''),
                (''x-ms-date'', date_str),
                (''x-ms-documentdb-isquery'', ''True''),
                (''Cache-Control'', ''no-cache'')]
               (Some ''{"query":"SELECT 1"}'') st)\<close>

text \<open>
  The constants of the \<^verbatim>\<open>ssl\<close> module that \<^verbatim>\<open>_get_supported_ssl_versions\<close> reads.  A
  \<^verbatim>\<open>PROTOCOL_\<close> constant is read only when its \<^verbatim>\<open>HAS_\<close> flag is true.
\<close>

record ssl_module =
  HAS_SSLv2 :: bool
  HAS_SSLv3 :: bool
  HAS_TLSv1 :: bool
  HAS_TLSv1_1 :: bool
  HAS_TLSv1_2 :: bool
  HAS_TLSv1_3 :: bool
  PROTOCOL_SSLv2 :: int
  PROTOCOL_SSLv3 :: int
  PROTOCOL_TLSv1 :: int
  PROTOCOL_TLSv1_1 :: int
  PROTOCOL_TLSv1_2 :: int
  OP_NO_SSLv2 :: int
  OP_NO_SSLv3 :: int
  OP_NO_TLSv1 :: int
  OP_NO_TLSv1_1 :: int
  OP_NO_TLSv1_2 :: int

definition get_supported_ssl_versions :: "ssl_module \<Rightarrow> (string \<times> int option) list" where
  "get_supported_ssl_versions ssl =
     [(''SSL V2 (not supported by Azure Cosmos DB)'',
         if HAS_SSLv2 ssl then Some (PROTOCOL_SSLv2 ssl) else None),
      (''SSL V3 (not supported by Azure Cosmos DB)'',
         if HAS_SSLv3 ssl then Some (PROTOCOL_SSLv3 ssl) else None),
      (''TLS V1  '', if HAS_TLSv1 ssl then Some (PROTOCOL_TLSv1 ssl) else None),
      (''TLS V1.1'', if HAS_TLSv1_1 ssl then Some (PROTOCOL_TLSv1_1 ssl) else None),
      (''TLS V1.2'', if HAS_TLSv1_2 ssl then Some (PROTOCOL_TLSv1_2 ssl) else None),
      (''TLS V1.3'',
         if HAS_TLSv1_2 ssl
         then Some (OP_NO_SSLv2 ssl AND OP_NO_SSLv3 ssl AND OP_NO_TLSv1 ssl AND OP_NO_TLSv1_1 ssl
                      AND OP_NO_TLSv1_2 ssl)
         else None)]"

text \<open>Truth value of an entry's second component: \<^verbatim>\<open>None\<close> and 0 are false.\<close>

definition truthy :: "int option \<Rightarrow> bool" where
  "truthy v = (case v of None \<Rightarrow> False | Some n \<Rightarrow> n \<noteq> 0)"

record args =
  endpoint :: string
  authorization_key :: string
  database_name :: "string option"
  collection_name :: "string option"

text \<open>
  \<^verbatim>\<open>args.database_name and args.collection_name\<close> as a condition: both are given and
  neither is empty.
\<close>

definition both_names :: "args \<Rightarrow> bool" where
  "both_names a \<longleftrightarrow> truthy_str (database_name a) \<and> truthy_str (collection_name a)"

text \<open>The three-way report on a response, lines 235 to 240 of the source.\<close>

definition report :: "string \<Rightarrow> string \<Rightarrow> response \<Rightarrow> state \<Rightarrow> state" where
  "report ssl_version_name query_type r st =
     (if ok r then py_print [ssl_version_name, query_type, '': Supported''] st
      else if sublist ''TLS'' (resp_text r)
        then py_print [ssl_version_name, query_type, '': Not supported''] st
      else py_print [''Connection error:'', str_int (status_code r), resp_text r] st)"

text \<open>
  The body of the \<^verbatim>\<open>for\<close> loop of \<^verbatim>\<open>main\<close> for one entry.  The second component of the
  result is the exception that left the body, if any; nothing in \<^verbatim>\<open>main\<close> catches it.  The
  outer case distinction only names the integer of a flag that is not \<^verbatim>\<open>None\<close>; the test
  \<^verbatim>\<open>if not ssl_version\<close> is the \<open>truthy\<close> below it, and a flag \<^verbatim>\<open>None\<close> is false.  Likewise the
  two names are read by a case distinction that \<open>both_names\<close> has settled.
\<close>

definition probe :: "world \<Rightarrow> args \<Rightarrow> string \<times> int option \<Rightarrow> state \<Rightarrow> state \<times> py_error option" where
  "probe w a entry st =
     (case entry of (ssl_version_name, ssl_version) \<Rightarrow>
        (case ssl_version of
           None \<Rightarrow> (py_print [ssl_version_name, '': Not supported by client''] st, None)
         | Some v \<Rightarrow>
             if \<not> truthy ssl_version
             then (py_print [ssl_version_name, '': Not supported by client''] st, None)
             else
               (let (query_type, st', res) =
                      (if both_names a
                       then (''Basic Query'',
                             basic_query w (endpoint a) (authorization_key a) v
                               (case database_name a of Some d \<Rightarrow> d | None \<Rightarrow> [])
                               (case collection_name a of Some c \<Rightarrow> c | None \<Rightarrow> []) st)
                       else (''List Databases'',
                             list_databases w (endpoint a) (authorization_key a) v st))
                in case res of
                     Inl e \<Rightarrow> (st', Some e)
                   | Inr r \<Rightarrow> (report ssl_version_name query_type r st', None))))"

fun probe_loop ::
  "world \<Rightarrow> args \<Rightarrow> (string \<times> int option) list \<Rightarrow> state \<Rightarrow> state \<times> py_error option" where
  "probe_loop w a [] st = (st, None)"
| "probe_loop w a (entry # rest) st =
     (case probe w a entry st of
        (st', Some e) \<Rightarrow> (st', Some e)
      | (st', None) \<Rightarrow> probe_loop w a rest st')"

text \<open>Lines 203 to 210: the names are stripped only when both are given.\<close>

definition strip_names :: "args \<Rightarrow> state \<Rightarrow> args \<times> state" where
  "strip_names a st =
     (if both_names a
      then (let d = strip (case database_name a of Some d \<Rightarrow> d | None \<Rightarrow> []);
                c = strip (case collection_name a of Some c \<Rightarrow> c | None \<Rightarrow> [])
            in (a\<lparr>database_name := Some d, collection_name := Some c\<rparr>,
                py_print [''Database name: ['' @ d @ ''], Collection name: ['' @ c @ '']''] st))
      else (a, st))"

definition main :: "world \<Rightarrow> ssl_module \<Rightarrow> args \<Rightarrow> state \<times> py_error option" where
  "main w ssl a0 =
     (let a1 = a0\<lparr>endpoint := strip (endpoint a0)\<rparr>;
          a2 = a1\<lparr>authorization_key := strip (authorization_key a1)\<rparr>;
          st1 = py_print [''Endpoint: ['' @ endpoint a2 @ '']''] \<lparr>out = [], reqs = []\<rparr>;
          (a3, st2) = strip_names a2 st1;
          ssl_versions = get_supported_ssl_versions ssl;
          st3 = py_print [CHR 0x0A # ''SSL/TLS Version Support''] st2
      in probe_loop w a3 ssl_versions st3)"

section \<open>Notions of the specification\<close>

text \<open>
  Percent-decoding, as the specification uses it on the token: \<open>%XX\<close> with two hexadecimal
  digits stands for the byte \<open>XX\<close>, anything else for itself.  On escapes below 0x80, the only
  ones in a token, this is \<^verbatim>\<open>urllib.parse.unquote\<close>.
\<close>

definition unhex :: "char \<Rightarrow> nat option" where
  "unhex c =
     (let n = code_point c
      in if 48 \<le> n \<and> n \<le> 57 then Some (n - 48)
         else if 65 \<le> n \<and> n \<le> 70 then Some (n - 55)
         else if 97 \<le> n \<and> n \<le> 102 then Some (n - 87)
         else None)"

fun percent_decode :: "string \<Rightarrow> string" where
  "percent_decode [] = []"
| "percent_decode [c] = [c]"
| "percent_decode [c, h] = c # percent_decode [h]"
| "percent_decode (c # h # l # rest) =
     (if c = CHR ''%'' \<and> unhex h \<noteq> None \<and> unhex l \<noteq> None
      then char_of (16 * (case unhex h of Some a \<Rightarrow> a | None \<Rightarrow> 0)
                    + (case unhex l of Some b \<Rightarrow> b | None \<Rightarrow> 0)) # percent_decode rest
      else c # percent_decode (h # l # rest))"


text \<open>The value of a header of a request.\<close>

definition header :: "request \<Rightarrow> string \<Rightarrow> string option" where
  "header rq name = map_of (req_headers rq) name"

text \<open>
  The two operations of the specification, as requests: "list databases" (verb GET,
  resource type \<^verbatim>\<open>dbs\<close>, empty resource link, no body) and "run query" (verb POST, resource
  type \<^verbatim>\<open>docs\<close>, resource link \<^verbatim>\<open>dbs/{database}/colls/{container}\<close>, the literal query as
  body).  The verb is written as the source passes it to \<^verbatim>\<open>session.request\<close>, in lower
  case; the resource link and type are in the URL, joined as \<^verbatim>\<open>_send_request\<close> joins them.
\<close>

definition is_list_request :: "world \<Rightarrow> string \<Rightarrow> request \<Rightarrow> bool" where
  "is_list_request w uri rq \<longleftrightarrow>
     req_verb rq = ''get'' \<and> req_url rq = urljoin w (urljoin w uri ([] @ ''/'')) ''dbs''
     \<and> req_body rq = None"

definition is_query_request :: "world \<Rightarrow> string \<Rightarrow> string \<Rightarrow> string \<Rightarrow> request \<Rightarrow> bool" where
  \<open>is_query_request w uri database container rq \<longleftrightarrow>
     req_verb rq = ''post''
     \<and> req_url rq = urljoin w (urljoin w uri ((''dbs/'' @ database @ ''/colls/'' @ container) @ ''/'')) ''docs''
     \<and> req_body rq = Some ''{"query":"SELECT 1"}''\<close>

section \<open>Concrete inputs\<close>

text \<open>
  The constants of CPython's \<^verbatim>\<open>ssl\<close> module built on OpenSSL 1.1.0 or later, with SSL 2 and
  SSL 3 compiled out.
\<close>

definition ssl_cpython :: ssl_module where
  "ssl_cpython =
     \<lparr>HAS_SSLv2 = False, HAS_SSLv3 = False, HAS_TLSv1 = True, HAS_TLSv1_1 = True,
      HAS_TLSv1_2 = True, HAS_TLSv1_3 = True,
      PROTOCOL_SSLv2 = 0, PROTOCOL_SSLv3 = 1, PROTOCOL_TLSv1 = 3, PROTOCOL_TLSv1_1 = 4,
      PROTOCOL_TLSv1_2 = 5,
      OP_NO_SSLv2 = 0, OP_NO_SSLv3 = 0x2000000, OP_NO_TLSv1 = 0x4000000,
      OP_NO_TLSv1_1 = 0x10000000, OP_NO_TLSv1_2 = 0x8000000\<rparr>"

definition nov_1994 :: datetime where
  "nov_1994 =
     \<lparr>dt_year = 1994, dt_month = 11, dt_day = 1, dt_hour = 8, dt_minute = 12, dt_second = 31\<rparr>"

text \<open>
  An account whose server refuses the TLS 1.0 handshake (\<^verbatim>\<open>session.request\<close> raises
  \<^verbatim>\<open>requests.exceptions.SSLError\<close>) and answers 200 otherwise.  For the endpoint below,
  a root URL, \<^verbatim>\<open>urljoin(uri, "/")\<close> is the endpoint and \<^verbatim>\<open>urljoin\<close> of it and a relative path
  appends the path.
\<close>

definition world_tls1_refused :: world where
  "world_tls1_refused =
     \<lparr>utcnow = (\<lambda>n. nov_1994),
      urljoin = (\<lambda>base url. if url = ''/'' then base else base @ url),
      session_request =
        (\<lambda>n rq. if req_ssl_version rq = 3 then Inl (RequestException ''SSLError'')
                 else Inr \<lparr>status_code = 200, resp_text = ''{}''\<rparr>)\<rparr>"

text \<open>The same account when every version is accepted but the key is not authorised.\<close>

definition world_unauthorized :: world where
  "world_unauthorized =
     \<lparr>utcnow = (\<lambda>n. nov_1994),
      urljoin = (\<lambda>base url. if url = ''/'' then base else base @ url),
      session_request = (\<lambda>n rq. Inr \<lparr>status_code = 401, resp_text = ''Unauthorized''\<rparr>)\<rparr>"

definition args_account :: args where
  "args_account =
     \<lparr>endpoint = ''https://acct.documents.azure.com:443/'', authorization_key = ''QUJD'',
      database_name = None, collection_name = None\<rparr>"

definition args_both_names :: args where
  "args_both_names =
     \<lparr>endpoint = ''https://acct.documents.azure.com:443/'', authorization_key = ''QUJD'',
      database_name = Some ''db'', collection_name = Some ''coll''\<rparr>"

definition args_one_name :: args where
  "args_one_name =
     \<lparr>endpoint = ''https://acct.documents.azure.com:443/'', authorization_key = ''QUJD'',
      database_name = Some ''db'', collection_name = None\<rparr>"

section \<open>Facts about the library functions and the signer\<close>

lemma length_sha256: "length (sha256 m) = 32"
  by (simp add: sha256_def sha_output_def word32_bytes_def split: prod.split)

lemma length_hmac_digest: "length (hmac_digest k m) = 32"
  by (simp add: hmac_digest_def Let_def length_sha256)

lemma encodebytes_one_chunk:
  assumes "s \<noteq> []" and "length s \<le> 57"
  shows "encodebytes s = b64encode s @ [CHR 0x0A]"
proof -
  have "encodebytes s = b2a_base64 (take MAXBINSIZE s) @ encodebytes (drop MAXBINSIZE s)"
    using assms(1) by (subst encodebytes.simps) simp
  moreover have "take MAXBINSIZE s = s" "drop MAXBINSIZE s = []"
    using assms(2) by (simp_all add: MAXBINSIZE_def)
  moreover have "encodebytes [] = []"
    by (subst encodebytes.simps) simp
  ultimately show ?thesis
    by (simp add: b2a_base64_def)
qed

lemma length_b64_alphabet: "length b64_alphabet = 64"
  by (simp add: b64_alphabet_def)

lemma six_bits: "unat (x AND 0x3f :: byte) < 64"
proof -
  have "x AND 0x3f \<le> 0x3f"
    by (rule word_and_le1)
  then have "unat (x AND 0x3f) \<le> unat (0x3f :: byte)"
    by (simp only: word_le_nat_alt)
  then show ?thesis
    by simp
qed

lemma table_in_alphabet: "table_b2a_base64 x \<in> set b64_alphabet"
  unfolding table_b2a_base64_def by (rule nth_mem) (simp add: length_b64_alphabet six_bits)

lemma b64encode_alphabet: "set (b64encode bs) \<subseteq> insert CHR ''='' (set b64_alphabet)"
  by (induction bs rule: b64encode.induct) (auto simp: Let_def table_in_alphabet)

lemma b64_chars_ascii: "c \<in> insert CHR ''='' (set b64_alphabet) \<Longrightarrow> code_point c < 128"
  by (auto simp: b64_alphabet_def code_point_def)

lemma newline_not_b64: "CHR 0x0A \<notin> insert CHR ''='' (set b64_alphabet)"
  by (simp add: b64_alphabet_def)

lemma unhex_hex_digit: "unhex (hex_digit m) = Some (m mod 16)"
proof -
  have "list_all (\<lambda>k. unhex (''0123456789ABCDEF'' ! k) = Some k) [0..<16]"
    by code_simp
  then have "\<forall>k<16. unhex (''0123456789ABCDEF'' ! k) = Some k"
    by (simp add: list_all_iff)
  then show ?thesis
    by (simp add: hex_digit_def)
qed

lemma percent_decode_plain:
  assumes "c \<noteq> CHR ''%''"
  shows "percent_decode (c # rest) = c # percent_decode rest"
proof (cases rest)
  case Nil
  then show ?thesis by simp
next
  case (Cons h r1)
  with assms show ?thesis by (cases r1) simp_all
qed

lemma percent_decode_quoter:
  assumes "code_point c < 128"
  shows "percent_decode (quoter (of_nat (code_point c)) @ rest) = c # percent_decode rest"
proof -
  let ?n = "code_point c"
  have u: "unat (of_nat ?n :: byte) = ?n"
    using assms by (simp add: unat_of_nat)
  have c: "char_of ?n = c"
    by (simp add: code_point_def)
  show ?thesis
  proof (cases "quote_safe ?n")
    case True
    then have "c \<noteq> CHR ''%''"
      by (auto simp: quote_safe_def code_point_def)
    with True show ?thesis
      by (simp add: quoter_def u c Let_def percent_decode_plain)
  next
    case False
    have "?n div 16 mod 16 = ?n div 16"
      using assms by simp
    then have "16 * (?n div 16 mod 16) + ?n mod 16 = ?n"
      by simp
    with False show ?thesis
      by (simp add: quoter_def u c Let_def unhex_hex_digit)
  qed
qed

lemma encode_utf8_ascii:
  "list_all (\<lambda>c. code_point c < 128) s \<Longrightarrow> encode_utf8 s = map (\<lambda>c. of_nat (code_point c)) s"
  by (induction s) (simp_all add: encode_utf8_def encode_utf8_char_def)

lemma percent_decode_quote:
  "list_all (\<lambda>c. code_point c < 128) s \<Longrightarrow> percent_decode (quote s) = s"
proof (induction s)
  case Nil
  then show ?case by (simp add: quote_def encode_utf8_def)
next
  case (Cons c s)
  then have "quote (c # s) = quoter (of_nat (code_point c)) @ quote s"
    by (simp add: quote_def encode_utf8_ascii)
  with Cons show ?case
    by (simp add: percent_decode_quoter)
qed


lemma length_b64encode: "length (b64encode bs) = 4 * ((length bs + 2) div 3)"
proof (induction bs rule: b64encode.induct)
  case (4 a b c rest)
  have "(length rest + 5) div 3 = (length rest + 2) div 3 + 1"
    by presburger
  with 4 show ?case
    by (simp add: Let_def add.commute)
qed (simp_all add: Let_def)

lemma get_auth_header_decoded:
  assumes "b64decode key = Inr k"
  shows "get_auth_header key verb resource_type resource_link date =
         Inr (quote (''type=master&ver=1.0&sig='' @ b64encode (hmac_digest k (encode_utf8
           (lower verb @ [CHR 0x0A] @ lower resource_type @ [CHR 0x0A] @ resource_link
              @ [CHR 0x0A] @ lower date @ [CHR 0x0A, CHR 0x0A])))))"
proof -
  let ?d = "hmac_digest k (encode_utf8
           (lower verb @ [CHR 0x0A] @ lower resource_type @ [CHR 0x0A] @ resource_link
              @ [CHR 0x0A] @ lower date @ [CHR 0x0A, CHR 0x0A]))"
  have "length ?d = 32"
    by (rule length_hmac_digest)
  then have "encodebytes ?d = b64encode ?d @ [CHR 0x0A]"
    by (intro encodebytes_one_chunk) auto
  then show ?thesis
    using assms by (simp add: get_auth_header_def Let_def)
qed

text \<open>
  Claim C1.  For a key that decodes, \<open>get_auth_header\<close> (sign) returns the percent-encoding of
  \<open>type=master&ver=1.0&sig=\<close> followed by the unwrapped base64 of the HMAC-SHA256 digest, keyed
  by the decoded key, of the payload: lower-cased verb, newline, lower-cased resource type,
  newline, resource link, newline, lower-cased timestamp, newline, newline.  The digest has 32
  bytes, fewer than the 57 of a line, so the base64 text holds no line break and dropping the
  last character of what \<open>encodebytes\<close> returns leaves exactly the unwrapped base64.
\<close>

theorem sign_token:
  assumes "b64decode key = Inr k"
  shows "let payload = lower verb @ [CHR 0x0A] @ lower resource_type @ [CHR 0x0A] @ resource_link
                         @ [CHR 0x0A] @ lower timestamp @ [CHR 0x0A, CHR 0x0A];
             digest = hmac_digest k (encode_utf8 payload)
         in length digest = 32
            \<and> CHR 0x0A \<notin> set (b64encode digest)
            \<and> butlast (encodebytes digest) = b64encode digest
            \<and> get_auth_header key verb resource_type resource_link timestamp =
                Inr (quote (''type=master&ver=1.0&sig='' @ b64encode digest))"
proof -
  let ?d = "hmac_digest k (encode_utf8
           (lower verb @ [CHR 0x0A] @ lower resource_type @ [CHR 0x0A] @ resource_link
              @ [CHR 0x0A] @ lower timestamp @ [CHR 0x0A, CHR 0x0A]))"
  have len: "length ?d = 32"
    by (rule length_hmac_digest)
  then have enc: "encodebytes ?d = b64encode ?d @ [CHR 0x0A]"
    by (intro encodebytes_one_chunk) auto
  have nl: "CHR 0x0A \<notin> set (b64encode ?d)"
    using b64encode_alphabet [of ?d] newline_not_b64 by blast
  show ?thesis
    unfolding Let_def using len nl enc get_auth_header_decoded [OF assms] by simp
qed

text \<open>
  Claim C7.  For a key that decodes, the token, percent-decoded, is \<open>type=master&ver=1.0&sig=\<close>
  followed by 44 characters of the base64 alphabet (the pad character \<open>=\<close> included), and
  encoding the decoded string again gives the token back.
\<close>

theorem token_pattern:
  assumes "b64decode key = Inr k"
  shows "\<exists>tok sig. get_auth_header key verb resource_type resource_link timestamp = Inr tok
           \<and> percent_decode tok = ''type=master&ver=1.0&sig='' @ sig
           \<and> length sig = 44
           \<and> set sig \<subseteq> insert CHR ''='' (set b64_alphabet)
           \<and> quote (percent_decode tok) = tok"
proof -
  let ?d = "hmac_digest k (encode_utf8
           (lower verb @ [CHR 0x0A] @ lower resource_type @ [CHR 0x0A] @ resource_link
              @ [CHR 0x0A] @ lower timestamp @ [CHR 0x0A, CHR 0x0A]))"
  let ?sig = "b64encode ?d"
  let ?plain = "''type=master&ver=1.0&sig='' @ ?sig"
  have tok: "get_auth_header key verb resource_type resource_link timestamp = Inr (quote ?plain)"
    by (rule get_auth_header_decoded [OF assms])
  have alpha: "set ?sig \<subseteq> insert CHR ''='' (set b64_alphabet)"
    by (rule b64encode_alphabet)
  have "list_all (\<lambda>c. code_point c < 128) ?sig"
    using alpha b64_chars_ascii by (auto simp: list_all_iff)
  moreover have "list_all (\<lambda>c. code_point c < 128) ''type=master&ver=1.0&sig=''"
    by (simp add: code_point_def)
  ultimately have "list_all (\<lambda>c. code_point c < 128) ?plain"
    by simp
  then have dec: "percent_decode (quote ?plain) = ?plain"
    by (rule percent_decode_quote)
  have len: "length ?sig = 44"
    by (simp add: length_b64encode length_hmac_digest)
  show ?thesis
    using tok dec len alpha by (intro exI [of _ "quote ?plain"] exI [of _ ?sig]) simp
qed


text \<open>
  C1 at the key \<open>QUJD\<close> (the bytes \<open>ABC\<close>), verb \<open>GET\<close>, resource type \<open>dbs\<close>, empty resource
  link and the date of 1 November 1994: the token, with the digest computed, is the one CPython
  returns for these arguments.
\<close>

theorem sign_token_witness:
  "b64decode ''QUJD'' = Inr [65, 66, 67]
   \<and> get_auth_header ''QUJD'' ''GET'' ''dbs'' [] ''Tue, 01 Nov 1994 08:12:31 GMT'' =
       Inr ''type%3Dmaster%26ver%3D1.0%26sig%3DfwQiyVpIQOt6%2BJ9TPuVujfKB1fJm3I4RCI2e28WzQnY%3D''"
proof -
  have k: "b64decode ''QUJD'' = Inr [65, 66, 67]"
    by code_simp
  have p: "lower ''GET'' @ [CHR 0x0A] @ lower ''dbs'' @ [CHR 0x0A] @ [] @ [CHR 0x0A]
             @ lower ''Tue, 01 Nov 1994 08:12:31 GMT'' @ [CHR 0x0A, CHR 0x0A] =
           ''get\<newline>dbs\<newline>\<newline>tue, 01 nov 1994 08:12:31 gmt\<newline>\<newline>''"
    by code_simp
  have d: "hmac_digest [65, 66, 67]
             (encode_utf8 ''get\<newline>dbs\<newline>\<newline>tue, 01 nov 1994 08:12:31 gmt\<newline>\<newline>'') =
           [0x7f, 0x04, 0x22, 0xc9, 0x5a, 0x48, 0x40, 0xeb, 0x7a, 0xf8, 0x9f, 0x53, 0x3e, 0xe5, 0x6e, 0x8d, 0xf2, 0x81, 0xd5, 0xf2, 0x66, 0xdc, 0x8e, 0x11, 0x08, 0x8d, 0x9e, 0xdb, 0xc5, 0xb3, 0x42, 0x76]"
    by code_simp
  have q: "quote (''type=master&ver=1.0&sig='' @ b64encode
             [0x7f, 0x04, 0x22, 0xc9, 0x5a, 0x48, 0x40, 0xeb, 0x7a, 0xf8, 0x9f, 0x53, 0x3e, 0xe5, 0x6e, 0x8d, 0xf2, 0x81, 0xd5, 0xf2, 0x66, 0xdc, 0x8e, 0x11, 0x08, 0x8d, 0x9e, 0xdb, 0xc5, 0xb3, 0x42, 0x76]) =
           ''type%3Dmaster%26ver%3D1.0%26sig%3DfwQiyVpIQOt6%2BJ9TPuVujfKB1fJm3I4RCI2e28WzQnY%3D''"
    by code_simp
  note t = sign_token [OF k, of "''GET''" "''dbs''" "[]" "''Tue, 01 Nov 1994 08:12:31 GMT''",
      unfolded Let_def p d q]
  from t k show ?thesis
    by blast
qed

lemma a2b_loop_skips:
  assumes "\<And>c. \<not> keep c \<Longrightarrow> c \<noteq> CHR ''='' \<and> table_a2b_base64 c = None"
  shows "a2b_loop q l p acc (filter keep s) = a2b_loop q l p acc s"
proof (induction s arbitrary: q l p acc)
  case Nil
  show ?case by simp
next
  case (Cons c s)
  show ?case
  proof (cases "keep c")
    case True
    then show ?thesis
      by (simp add: Cons.IH split: option.split)
  next
    case False
    with assms [of c] show ?thesis
      by (simp add: Cons.IH)
  qed
qed

lemma b64decode_ignores_foreign:
  assumes "list_all (\<lambda>c. code_point c < 128) s"
  shows "b64decode (filter (\<lambda>c. c = CHR ''='' \<or> table_a2b_base64 c \<noteq> None) s) = b64decode s"
proof -
  have "list_all (\<lambda>c. code_point c < 128)
      (filter (\<lambda>c. c = CHR ''='' \<or> table_a2b_base64 c \<noteq> None) s)"
    using assms by (simp add: list_all_iff)
  moreover have "a2b_loop 0 0 0 [] (filter (\<lambda>c. c = CHR ''='' \<or> table_a2b_base64 c \<noteq> None) s) =
      a2b_loop 0 0 0 [] s"
    by (rule a2b_loop_skips) simp
  ultimately show ?thesis
    using assms by (simp only: b64decode_def a2b_base64_def if_True)
qed

section \<open>Facts about requests and the loop body\<close>

lemma reqs_py_print: "reqs (py_print xs st) = reqs st"
  by (simp add: py_print_def)

lemma out_py_print: "out (py_print xs st) = out st @ [join_space xs]"
  by (simp add: py_print_def)

lemma reqs_report: "reqs (report n q r st) = reqs st"
  by (simp add: report_def reqs_py_print)

lemma length_out_report: "length (out (report n q r st)) = Suc (length (out st))"
  by (simp add: report_def out_py_print)

lemma sublist_iff_split: "sublist xs ys \<longleftrightarrow> (\<exists>p s. ys = p @ xs @ s)"
  by (simp add: sublist_def)

lemma lower_char_idem: "lower_char (lower_char c) = lower_char c"
  by (auto simp: lower_char_def code_point_def Let_def)

lemma lower_idem: "lower (lower s) = lower s"
  by (simp add: lower_def lower_char_idem)

lemma lower_get: "lower ''get'' = ''get''"
  by (simp add: lower_def lower_char_def code_point_def)

lemma lower_dbs: "lower ''dbs'' = ''dbs''"
  by (simp add: lower_def lower_char_def code_point_def)

lemma lower_post: "lower ''post'' = ''post''"
  by (simp add: lower_def lower_char_def code_point_def)

lemma lower_docs: "lower ''docs'' = ''docs''"
  by (simp add: lower_def lower_char_def code_point_def)

lemma get_auth_header_failed:
  "b64decode key = Inl e \<Longrightarrow> get_auth_header key verb resource_type resource_link date = Inl e"
  by (simp add: get_auth_header_def)

lemma list_databases_sends:
  assumes "b64decode key = Inr k"
  shows "list_databases w uri key v st =
     (let date_str = lower (strftime (utcnow w (length (reqs st))));
          rq = \<lparr>req_ssl_version = v, req_verb = ''get'',
                req_url = urljoin w (urljoin w uri ''/'') ''dbs'',
                req_headers =
                  [(''authorization'',
                    quote (''type=master&ver=1.0&sig='' @ b64encode (hmac_digest k (encode_utf8
                      (''get'' @ [CHR 0x0A] @ ''dbs'' @ [CHR 0x0A] @ [] @ [CHR 0x0A] @ date_str
                         @ [CHR 0x0A, CHR 0x0A]))))),
                   (''x-ms-version'', ''2017-02-22''),
                   (''x-ms-date'', date_str),
                   (''x-ms-max-item-count'', ''1''),
                   (''Cache-Control'', ''no-cache'')],
                req_body = None\<rparr>
      in (st\<lparr>reqs := reqs st @ [rq]\<rparr>, session_request w (length (reqs st)) rq))"
  by (simp add: list_databases_def get_auth_header_decoded [OF assms] send_request_def Let_def
      lower_idem lower_get lower_dbs)

lemma basic_query_sends:
  assumes "b64decode key = Inr k"
  shows \<open>basic_query w uri key v d c st =
     (let date_str = lower (strftime (utcnow w (length (reqs st))));
          rq = \<lparr>req_ssl_version = v, req_verb = ''post'',
                req_url = urljoin w (urljoin w uri (''dbs/'' @ d @ ''/colls/'' @ c @ ''/'')) ''docs'',
                req_headers =
                  [(''content-type'', ''application/query+json''),
                   (''authorization'',
                    quote (''type=master&ver=1.0&sig='' @ b64encode (hmac_digest k (encode_utf8
                      (''post'' @ [CHR 0x0A] @ ''docs'' @ [CHR 0x0A] @ (''dbs/'' @ d @ ''/colls/'' @ c)
                         @ [CHR 0x0A] @ date_str @ [CHR 0x0A, CHR 0x0A]))))),
                   (''x-ms-version'', ''2017-02-22''),
                   (''x-ms-date'', date_str),
                   (''x-ms-documentdb-isquery'', ''True''),
                   (''Cache-Control'', ''no-cache'')],
                req_body = Some ''{"query":"SELECT 1"}''\<rparr>
      in (st\<lparr>reqs := reqs st @ [rq]\<rparr>, session_request w (length (reqs st)) rq))\<close>
  by (simp add: basic_query_def get_auth_header_decoded [OF assms] send_request_def Let_def
      lower_idem lower_post lower_docs)

lemma probe_not_negotiable:
  "\<not> truthy v \<Longrightarrow>
   probe w a (name, v) st = (py_print [name, '': Not supported by client''] st, None)"
  by (cases v) (simp_all add: probe_def)

lemma probe_loop_append:
  "probe_loop w a (xs @ ys) st =
     (case probe_loop w a xs st of
        (st', Some e) \<Rightarrow> (st', Some e)
      | (st', None) \<Rightarrow> probe_loop w a ys st')"
  by (induction xs arbitrary: st) (auto split: prod.split option.split)

section \<open>Classification, enumeration and rejected keys\<close>

text \<open>
  Claim C2.  The report on a response: a response that is \<open>ok\<close> (a status outside 400 .. 599)
  prints the line of the outcome Supported; otherwise a body text that contains \<open>TLS\<close> prints
  the line of NotSupported; otherwise the line of ConnectionError is printed, carrying the
  status code and the body text.
\<close>

theorem report_classifies:
  "(ok r \<longrightarrow>
      report name query_type r st = st\<lparr>out := out st @ [name @ '' '' @ query_type @ '' : Supported'']\<rparr>)
   \<and> (\<not> ok r \<and> (\<exists>p s. resp_text r = p @ ''TLS'' @ s) \<longrightarrow>
      report name query_type r st =
        st\<lparr>out := out st @ [name @ '' '' @ query_type @ '' : Not supported'']\<rparr>)
   \<and> (\<not> ok r \<and> \<not> (\<exists>p s. resp_text r = p @ ''TLS'' @ s) \<longrightarrow>
      report name query_type r st =
        st\<lparr>out := out st @ [''Connection error: '' @ str_int (status_code r) @ '' '' @ resp_text r]\<rparr>)"
proof -
  have "sublist ''TLS'' (resp_text r) \<longleftrightarrow> (\<exists>p s. resp_text r = p @ ''TLS'' @ s)"
    by (rule sublist_iff_split)
  then show ?thesis
    by (simp add: report_def py_print_def)
qed

text \<open>
  C2 at three responses: 200, 400 with \<open>TLS query not supported\<close>, and 401 with
  \<open>Unauthorized\<close>.
\<close>

theorem report_classifies_witness:
  "ok \<lparr>status_code = 200, resp_text = ''{}''\<rparr>
   \<and> report ''TLS V1.2'' ''List Databases'' \<lparr>status_code = 200, resp_text = ''{}''\<rparr>
         \<lparr>out = [], reqs = []\<rparr> =
       \<lparr>out = [''TLS V1.2 List Databases : Supported''], reqs = []\<rparr>
   \<and> \<not> ok \<lparr>status_code = 400, resp_text = ''TLS query not supported''\<rparr>
   \<and> (\<exists>p s. ''TLS query not supported'' = p @ ''TLS'' @ s)
   \<and> report ''TLS V1  '' ''List Databases''
         \<lparr>status_code = 400, resp_text = ''TLS query not supported''\<rparr> \<lparr>out = [], reqs = []\<rparr> =
       \<lparr>out = [''TLS V1   List Databases : Not supported''], reqs = []\<rparr>
   \<and> \<not> ok \<lparr>status_code = 401, resp_text = ''Unauthorized''\<rparr>
   \<and> \<not> (\<exists>p s. ''Unauthorized'' = p @ ''TLS'' @ s)
   \<and> report ''TLS V1.2'' ''List Databases'' \<lparr>status_code = 401, resp_text = ''Unauthorized''\<rparr>
         \<lparr>out = [], reqs = []\<rparr> =
       \<lparr>out = [''Connection error: 401 Unauthorized''], reqs = []\<rparr>"
proof -
  let ?st = "\<lparr>out = [], reqs = []\<rparr>"
  let ?r1 = "\<lparr>status_code = 200, resp_text = ''{}''\<rparr>"
  let ?r2 = "\<lparr>status_code = 400, resp_text = ''TLS query not supported''\<rparr>"
  let ?r3 = "\<lparr>status_code = 401, resp_text = ''Unauthorized''\<rparr>"
  have ok1: "ok ?r1" and ok2: "\<not> ok ?r2" and ok3: "\<not> ok ?r3"
    by (simp_all add: ok_def)
  have tls2: "\<exists>p s. ''TLS query not supported'' = p @ ''TLS'' @ s"
    by (intro exI [of _ "[]"] exI [of _ "'' query not supported''"]) simp
  have "\<not> sublist ''TLS'' ''Unauthorized''"
    by code_simp
  then have tls3: "\<not> (\<exists>p s. ''Unauthorized'' = p @ ''TLS'' @ s)"
    using sublist_iff_split [of "''TLS''" "''Unauthorized''"] by blast
  have n: "str_int 401 = ''401''"
    by code_simp
  have "report ''TLS V1.2'' ''List Databases'' ?r1 ?st =
          \<lparr>out = [''TLS V1.2 List Databases : Supported''], reqs = []\<rparr>"
    using report_classifies [of ?r1 "''TLS V1.2''" "''List Databases''" ?st] ok1 by simp
  moreover have "report ''TLS V1  '' ''List Databases'' ?r2 ?st =
          \<lparr>out = [''TLS V1   List Databases : Not supported''], reqs = []\<rparr>"
    using report_classifies [of ?r2 "''TLS V1  ''" "''List Databases''" ?st] ok2 tls2 by simp
  moreover have "report ''TLS V1.2'' ''List Databases'' ?r3 ?st =
          \<lparr>out = [''Connection error: 401 Unauthorized''], reqs = []\<rparr>"
    using report_classifies [of ?r3 "''TLS V1.2''" "''List Databases''" ?st] ok3 tls3 n by simp
  ultimately show ?thesis
    using ok1 ok2 ok3 tls2 tls3 by blast
qed

text \<open>
  Claim C3.  The six entries come in the order SSL 2, SSL 3, TLS 1.0, TLS 1.1, TLS 1.2,
  TLS 1.3.  With the constants of CPython's \<open>ssl\<close> module the flag of the TLS 1.3 entry is the
  conjunction of five disjoint option bits, which is 0 and counts as false, although the
  module reports TLS 1.3 as available: the flag of this entry is not true exactly when the
  version can be offered.
\<close>

theorem tls13_entry_at_cpython:
  "map fst (get_supported_ssl_versions ssl_cpython) =
     [''SSL V2 (not supported by Azure Cosmos DB)'', ''SSL V3 (not supported by Azure Cosmos DB)'',
      ''TLS V1  '', ''TLS V1.1'', ''TLS V1.2'', ''TLS V1.3'']
   \<and> HAS_TLSv1_3 ssl_cpython
   \<and> get_supported_ssl_versions ssl_cpython ! 5 = (''TLS V1.3'', Some 0)
   \<and> \<not> truthy (snd (get_supported_ssl_versions ssl_cpython ! 5))"
  by (simp add: get_supported_ssl_versions_def ssl_cpython_def truthy_def)

text \<open>
  Claim C8.  For an entry whose flag is false (\<open>None\<close> or 0) the loop body makes no request:
  it prints the line "Not supported by client" for that version and leaves the list of requests
  as it was; in a run over any list that holds such an entry, the loop, once it reaches the
  entry, does exactly that and goes on with the entries after it.
\<close>

theorem not_negotiable_never_probed:
  assumes "\<not> truthy v"
  shows "probe w a (name, v) st = (st\<lparr>out := out st @ [name @ '' : Not supported by client'']\<rparr>, None)
    \<and> reqs (fst (probe w a (name, v) st)) = reqs st
    \<and> probe_loop w a (before @ (name, v) # after) st =
        (case probe_loop w a before st of
           (st', Some e) \<Rightarrow> (st', Some e)
         | (st', None) \<Rightarrow>
             probe_loop w a after (st'\<lparr>out := out st' @ [name @ '' : Not supported by client'']\<rparr>))"
proof -
  have step: "probe w a (name, v) st' =
      (st'\<lparr>out := out st' @ [name @ '' : Not supported by client'']\<rparr>, None)" for st'
    using assms by (simp add: probe_not_negotiable py_print_def)
  show ?thesis
    by (simp add: step probe_loop_append split: prod.split option.split)
qed

text \<open>
  C8 at the TLS 1.3 entry (flag 0) and the SSL 3 entry (flag \<open>None\<close>) of CPython.
\<close>

theorem not_negotiable_never_probed_witness:
  "\<not> truthy (Some 0)
   \<and> probe world_unauthorized args_account (''TLS V1.3'', Some 0) \<lparr>out = [], reqs = []\<rparr> =
       (\<lparr>out = [''TLS V1.3 : Not supported by client''], reqs = []\<rparr>, None)
   \<and> \<not> truthy None
   \<and> probe world_unauthorized args_account (''SSL V3 (not supported by Azure Cosmos DB)'', None)
         \<lparr>out = [], reqs = []\<rparr> =
       (\<lparr>out = [''SSL V3 (not supported by Azure Cosmos DB) : Not supported by client''], reqs = []\<rparr>,
        None)"
proof -
  have f0: "\<not> truthy (Some 0)" and fn: "\<not> truthy None"
    by (simp_all add: truthy_def)
  show ?thesis
    using not_negotiable_never_probed [OF f0, of world_unauthorized args_account "''TLS V1.3''"
        "\<lparr>out = [], reqs = []\<rparr>" "[]" "[]"]
      not_negotiable_never_probed [OF fn, of world_unauthorized args_account
        "''SSL V3 (not supported by Azure Cosmos DB)''" "\<lparr>out = [], reqs = []\<rparr>" "[]" "[]"]
      f0 fn
    by simp
qed

lemma b64decode_QUJD: "b64decode ''QUJD'' = Inr [65, 66, 67]"
  by code_simp




section \<open>The date on the wire\<close>

lemma char_of_digits:
  "char_of (48::nat) = CHR ''0''" "char_of (49::nat) = CHR ''1''" "char_of (50::nat) = CHR ''2''"
  "char_of (51::nat) = CHR ''3''" "char_of (52::nat) = CHR ''4''" "char_of (53::nat) = CHR ''5''"
  "char_of (54::nat) = CHR ''6''" "char_of (55::nat) = CHR ''7''" "char_of (56::nat) = CHR ''8''"
  "char_of (57::nat) = CHR ''9''"
  by code_simp+

lemma strftime_nov_1994: "strftime nov_1994 = ''Tue, 01 Nov 1994 08:12:31 GMT''"
  by (simp add: strftime_def nov_1994_def weekday_def ymd2ord_def days_before_year_def
      days_before_month_def DAYS_BEFORE_MONTH_def is_leap_def two_digits_def digits.simps
      char_of_digits)

lemma lower_nov_1994:
  "lower ''Tue, 01 Nov 1994 08:12:31 GMT'' = ''tue, 01 nov 1994 08:12:31 gmt''"
  by code_simp

text \<open>
  Claim C5 as stated fails: on 1 November 1994 the formatted date is
  \<open>Tue, 01 Nov 1994 08:12:31 GMT\<close>, and the \<open>x-ms-date\<close> header of the request is that string in
  lower case.
\<close>

theorem wire_date_is_lower_case:
  "strftime nov_1994 = ''Tue, 01 Nov 1994 08:12:31 GMT''
   \<and> header (last (reqs (fst (list_databases world_unauthorized
         ''https://acct.documents.azure.com:443/'' ''QUJD'' 5 \<lparr>out = [], reqs = []\<rparr>))))
       ''x-ms-date'' = Some ''tue, 01 nov 1994 08:12:31 gmt''"
  by (simp add: list_databases_sends [OF b64decode_QUJD] Let_def header_def world_unauthorized_def
      strftime_nov_1994 lower_nov_1994)

text \<open>
  Claim C5, amended.  For every probe request, the date string in the signed payload is the
  lower-cased HTTP-date, and the \<open>x-ms-date\<close> header of the request carries that same
  lower-cased string.
\<close>

theorem date_header_is_signed_date:
  assumes "b64decode key = Inr k"
  shows "let date_str = lower (strftime (utcnow w (length (reqs st))));
             rq = last (reqs (fst (list_databases w uri key v st)));
             rq' = last (reqs (fst (basic_query w uri key v d c st)))
         in header rq ''x-ms-date'' = Some date_str
            \<and> header rq ''authorization'' =
                Some (quote (''type=master&ver=1.0&sig='' @ b64encode (hmac_digest k (encode_utf8
                  (''get'' @ [CHR 0x0A] @ ''dbs'' @ [CHR 0x0A] @ [] @ [CHR 0x0A] @ date_str
                     @ [CHR 0x0A, CHR 0x0A])))))
            \<and> header rq' ''x-ms-date'' = Some date_str
            \<and> header rq' ''authorization'' =
                Some (quote (''type=master&ver=1.0&sig='' @ b64encode (hmac_digest k (encode_utf8
                  (''post'' @ [CHR 0x0A] @ ''docs'' @ [CHR 0x0A] @ (''dbs/'' @ d @ ''/colls/'' @ c)
                     @ [CHR 0x0A] @ date_str @ [CHR 0x0A, CHR 0x0A])))))"
  by (simp add: list_databases_sends [OF assms] basic_query_sends [OF assms] Let_def header_def)

text \<open>
  The amended C5 at the key \<open>QUJD\<close> on 1 November 1994.
\<close>

theorem date_header_is_signed_date_witness:
  "b64decode ''QUJD'' = Inr [65, 66, 67]
   \<and> header (last (reqs (fst (list_databases world_tls1_refused
         ''https://acct.documents.azure.com:443/'' ''QUJD'' 3 \<lparr>out = [], reqs = []\<rparr>))))
       ''x-ms-date'' = Some ''tue, 01 nov 1994 08:12:31 gmt''
   \<and> header (last (reqs (fst (list_databases world_tls1_refused
         ''https://acct.documents.azure.com:443/'' ''QUJD'' 3 \<lparr>out = [], reqs = []\<rparr>))))
       ''authorization'' =
       Some (quote (''type=master&ver=1.0&sig='' @ b64encode (hmac_digest [65, 66, 67] (encode_utf8
         ''get\<newline>dbs\<newline>\<newline>tue, 01 nov 1994 08:12:31 gmt\<newline>\<newline>''))))"
proof -
  have now: "lower (strftime (utcnow world_tls1_refused n)) = ''tue, 01 nov 1994 08:12:31 gmt''" for n
    by (simp add: world_tls1_refused_def strftime_nov_1994 lower_nov_1994)
  show ?thesis
    using date_header_is_signed_date [OF b64decode_QUJD, of world_tls1_refused
        "\<lparr>out = [], reqs = []\<rparr>" "''https://acct.documents.azure.com:443/''" 3 "[]" "[]"]
      b64decode_QUJD
    by (simp add: Let_def now)
qed

lemma list_databases_request:
  assumes "b64decode key = Inr k"
  shows "\<exists>rq. list_databases w uri key v st =
                (st\<lparr>reqs := reqs st @ [rq]\<rparr>, session_request w (length (reqs st)) rq)
           \<and> req_ssl_version rq = v \<and> is_list_request w uri rq"
  unfolding list_databases_sends [OF assms] Let_def
  by (rule exI, rule conjI, rule refl) (simp add: is_list_request_def)

lemma basic_query_request:
  assumes "b64decode key = Inr k"
  shows "\<exists>rq. basic_query w uri key v d c st =
                (st\<lparr>reqs := reqs st @ [rq]\<rparr>, session_request w (length (reqs st)) rq)
           \<and> req_ssl_version rq = v \<and> is_query_request w uri d c rq"
  unfolding basic_query_sends [OF assms] Let_def
  by (rule exI, rule conjI, rule refl) (simp add: is_query_request_def)

lemma probe_negotiable:
  assumes "b64decode (authorization_key a) = Inr k" and "v \<noteq> 0"
  shows "\<exists>rq. req_ssl_version rq = v
           \<and> (if both_names a
               then is_query_request w (endpoint a)
                      (case database_name a of Some d \<Rightarrow> d | None \<Rightarrow> [])
                      (case collection_name a of Some c \<Rightarrow> c | None \<Rightarrow> []) rq
               else is_list_request w (endpoint a) rq)
           \<and> probe w a (name, Some v) st =
               (case session_request w (length (reqs st)) rq of
                  Inl e \<Rightarrow> (st\<lparr>reqs := reqs st @ [rq]\<rparr>, Some e)
                | Inr r \<Rightarrow>
                    (report name (if both_names a then ''Basic Query'' else ''List Databases'') r
                       (st\<lparr>reqs := reqs st @ [rq]\<rparr>), None))"
proof (cases "both_names a")
  case True
  obtain rq where rq: "basic_query w (endpoint a) (authorization_key a) v
        (case database_name a of Some d \<Rightarrow> d | None \<Rightarrow> [])
        (case collection_name a of Some c \<Rightarrow> c | None \<Rightarrow> []) st =
        (st\<lparr>reqs := reqs st @ [rq]\<rparr>, session_request w (length (reqs st)) rq)"
      "req_ssl_version rq = v"
      "is_query_request w (endpoint a) (case database_name a of Some d \<Rightarrow> d | None \<Rightarrow> [])
        (case collection_name a of Some c \<Rightarrow> c | None \<Rightarrow> []) rq"
    using basic_query_request [OF assms(1)] by blast
  have "probe w a (name, Some v) st =
      (case session_request w (length (reqs st)) rq of
         Inl e \<Rightarrow> (st\<lparr>reqs := reqs st @ [rq]\<rparr>, Some e)
       | Inr r \<Rightarrow> (report name ''Basic Query'' r (st\<lparr>reqs := reqs st @ [rq]\<rparr>), None))"
    using True assms(2) by (simp add: probe_def truthy_def rq(1))
  with True rq(2,3) show ?thesis
    by (intro exI [of _ rq]) simp
next
  case False
  obtain rq where rq: "list_databases w (endpoint a) (authorization_key a) v st =
        (st\<lparr>reqs := reqs st @ [rq]\<rparr>, session_request w (length (reqs st)) rq)"
      "req_ssl_version rq = v" "is_list_request w (endpoint a) rq"
    using list_databases_request [OF assms(1)] by blast
  have "probe w a (name, Some v) st =
      (case session_request w (length (reqs st)) rq of
         Inl e \<Rightarrow> (st\<lparr>reqs := reqs st @ [rq]\<rparr>, Some e)
       | Inr r \<Rightarrow> (report name ''List Databases'' r (st\<lparr>reqs := reqs st @ [rq]\<rparr>), None))"
    using False assms(2) by (simp add: probe_def truthy_def rq(1))
  with False rq(2,3) show ?thesis
    by (intro exI [of _ rq]) simp
qed

section \<open>Runs of the loop\<close>

lemma list_databases_failed:
  "b64decode key = Inl e \<Longrightarrow> list_databases w uri key v st = (st, Inl e)"
  by (simp add: list_databases_def get_auth_header_failed)

lemma basic_query_failed:
  "b64decode key = Inl e \<Longrightarrow> basic_query w uri key v d c st = (st, Inl e)"
  by (simp add: basic_query_def get_auth_header_failed)

lemma probe_answered:
  assumes key: "b64decode (authorization_key a) = Inr k"
    and net: "\<forall>n rq. \<exists>r. session_request w n rq = Inr r"
  shows "snd (probe w a (name, v) st) = None
    \<and> length (out (fst (probe w a (name, v) st))) = Suc (length (out st))
    \<and> map (\<lambda>rq. Some (req_ssl_version rq)) (reqs (fst (probe w a (name, v) st))) =
        map (\<lambda>rq. Some (req_ssl_version rq)) (reqs st) @ (if truthy v then [v] else [])"
proof (cases "truthy v")
  case False
  then show ?thesis
    by (simp add: probe_not_negotiable py_print_def)
next
  case True
  then obtain n where v: "v = Some n" and n: "n \<noteq> 0"
    by (cases v) (auto simp: truthy_def)
  from probe_negotiable [OF key n, of w name st] obtain rq where
    rq: "req_ssl_version rq = n" and
    p: "probe w a (name, Some n) st =
         (case session_request w (length (reqs st)) rq of
            Inl e \<Rightarrow> (st\<lparr>reqs := reqs st @ [rq]\<rparr>, Some e)
          | Inr r \<Rightarrow>
              (report name (if both_names a then ''Basic Query'' else ''List Databases'') r
                 (st\<lparr>reqs := reqs st @ [rq]\<rparr>), None))"
    by blast
  from net obtain r where "session_request w (length (reqs st)) rq = Inr r"
    by blast
  with p rq v True show ?thesis
    by (simp add: reqs_report length_out_report)
qed

lemma probe_loop_all_answered:
  assumes key: "b64decode (authorization_key a) = Inr k"
    and net: "\<forall>n rq. \<exists>r. session_request w n rq = Inr r"
  shows "snd (probe_loop w a vs st) = None
    \<and> length (out (fst (probe_loop w a vs st))) = length (out st) + length vs
    \<and> map (\<lambda>rq. Some (req_ssl_version rq)) (reqs (fst (probe_loop w a vs st))) =
        map (\<lambda>rq. Some (req_ssl_version rq)) (reqs st) @ filter truthy (map snd vs)"
proof (induction vs arbitrary: st)
  case Nil
  show ?case by simp
next
  case (Cons entry vs)
  obtain name v where entry: "entry = (name, v)"
    by (cases entry)
  obtain st' where st': "probe w a (name, v) st = (st', None)"
    using probe_answered [OF key net, of name v st] by (cases "probe w a (name, v) st") simp
  have "length (out st') = Suc (length (out st))"
    and "map (\<lambda>rq. Some (req_ssl_version rq)) (reqs st') =
         map (\<lambda>rq. Some (req_ssl_version rq)) (reqs st) @ (if truthy v then [v] else [])"
    using probe_answered [OF key net, of name v st] st' by simp_all
  with Cons.IH [of st'] entry st' show ?case
    by simp
qed



lemma strip_names_facts:
  assumes "strip_names a st = (a3, st')"
  shows "reqs st' = reqs st"
    and "endpoint a3 = endpoint a"
    and "authorization_key a3 = authorization_key a"
    and "both_names a3 \<longleftrightarrow>
          both_names a
          \<and> strip (case database_name a of Some d \<Rightarrow> d | None \<Rightarrow> []) \<noteq> []
          \<and> strip (case collection_name a of Some c \<Rightarrow> c | None \<Rightarrow> []) \<noteq> []"
    and "both_names a \<Longrightarrow>
          database_name a3 = Some (strip (case database_name a of Some d \<Rightarrow> d | None \<Rightarrow> []))
          \<and> collection_name a3 = Some (strip (case collection_name a of Some c \<Rightarrow> c | None \<Rightarrow> []))"
  using assms
  by (cases "both_names a";
      auto simp: strip_names_def Let_def py_print_def both_names_def truthy_str_def)+

lemma main_unfold:
  "\<exists>a3 st3. main w ssl a = probe_loop w a3 (get_supported_ssl_versions ssl) st3
     \<and> reqs st3 = []
     \<and> endpoint a3 = strip (endpoint a)
     \<and> authorization_key a3 = strip (authorization_key a)
     \<and> (both_names a3 \<longleftrightarrow>
          both_names a
          \<and> strip (case database_name a of Some d \<Rightarrow> d | None \<Rightarrow> []) \<noteq> []
          \<and> strip (case collection_name a of Some c \<Rightarrow> c | None \<Rightarrow> []) \<noteq> [])
     \<and> (both_names a \<longrightarrow>
          database_name a3 = Some (strip (case database_name a of Some d \<Rightarrow> d | None \<Rightarrow> []))
          \<and> collection_name a3 = Some (strip (case collection_name a of Some c \<Rightarrow> c | None \<Rightarrow> [])))"
proof -
  let ?a2 = "a\<lparr>endpoint := strip (endpoint a), authorization_key := strip (authorization_key a)\<rparr>"
  let ?st1 = "py_print [''Endpoint: ['' @ strip (endpoint a) @ '']''] \<lparr>out = [], reqs = []\<rparr>"
  obtain a3 st2 where s: "strip_names ?a2 ?st1 = (a3, st2)"
    by (cases "strip_names ?a2 ?st1")
  let ?st3 = "py_print [CHR 0x0A # ''SSL/TLS Version Support''] st2"
  have m: "main w ssl a = probe_loop w a3 (get_supported_ssl_versions ssl) ?st3"
    using s by (simp add: main_def Let_def)
  have b: "both_names ?a2 = both_names a"
    by (simp add: both_names_def)
  from strip_names_facts [OF s] b m show ?thesis
    by (intro exI [of _ a3] exI [of _ ?st3]) (simp add: py_print_def)
qed

lemma strip_endpoint:
  "strip ''https://acct.documents.azure.com:443/'' = ''https://acct.documents.azure.com:443/''"
  by code_simp

lemma strip_QUJD: "strip ''QUJD'' = ''QUJD''"
  by code_simp

lemma versions_cpython:
  "get_supported_ssl_versions ssl_cpython =
     [(''SSL V2 (not supported by Azure Cosmos DB)'', None),
      (''SSL V3 (not supported by Azure Cosmos DB)'', None),
      (''TLS V1  '', Some 3), (''TLS V1.1'', Some 4), (''TLS V1.2'', Some 5), (''TLS V1.3'', Some 0)]"
  by (simp add: get_supported_ssl_versions_def ssl_cpython_def)




section \<open>Which operation a run performs\<close>

lemma probe_new_requests:
  "\<exists>new. reqs (fst (probe w a entry st)) = reqs st @ new
     \<and> list_all (\<lambda>rq. if both_names a
                       then is_query_request w (endpoint a)
                              (case database_name a of Some d \<Rightarrow> d | None \<Rightarrow> [])
                              (case collection_name a of Some c \<Rightarrow> c | None \<Rightarrow> []) rq
                       else is_list_request w (endpoint a) rq) new"
proof -
  obtain name v where entry: "entry = (name, v)"
    by (cases entry)
  show ?thesis
  proof (cases "truthy v")
    case False
    then have "reqs (fst (probe w a entry st)) = reqs st @ []"
      by (simp add: entry probe_not_negotiable reqs_py_print)
    then show ?thesis
      by (intro exI [of _ "[]"]) simp
  next
    case True
    then obtain n where v: "v = Some n" and n: "n \<noteq> 0"
      by (cases v) (auto simp: truthy_def)
    show ?thesis
    proof (cases "b64decode (authorization_key a)")
      case (Inl e)
      then have "reqs (fst (probe w a entry st)) = reqs st @ []"
        using True
        by (simp add: entry v probe_def list_databases_failed basic_query_failed)
      then show ?thesis
        by (intro exI [of _ "[]"]) simp
    next
      case (Inr k)
      from probe_negotiable [OF Inr n, of w name st] obtain rq where
        shape: "if both_names a
               then is_query_request w (endpoint a)
                      (case database_name a of Some d \<Rightarrow> d | None \<Rightarrow> [])
                      (case collection_name a of Some c \<Rightarrow> c | None \<Rightarrow> []) rq
               else is_list_request w (endpoint a) rq" and
        p: "probe w a (name, Some n) st =
             (case session_request w (length (reqs st)) rq of
                Inl e \<Rightarrow> (st\<lparr>reqs := reqs st @ [rq]\<rparr>, Some e)
              | Inr r \<Rightarrow>
                  (report name (if both_names a then ''Basic Query'' else ''List Databases'') r
                     (st\<lparr>reqs := reqs st @ [rq]\<rparr>), None))"
        by blast
      have "reqs (fst (probe w a entry st)) = reqs st @ [rq]"
        by (cases "session_request w (length (reqs st)) rq") (simp_all add: entry v p reqs_report)
      with shape show ?thesis
        by (intro exI [of _ "[rq]"]) simp
    qed
  qed
qed

lemma probe_loop_new_requests:
  "\<exists>new. reqs (fst (probe_loop w a vs st)) = reqs st @ new
     \<and> list_all (\<lambda>rq. if both_names a
                       then is_query_request w (endpoint a)
                              (case database_name a of Some d \<Rightarrow> d | None \<Rightarrow> [])
                              (case collection_name a of Some c \<Rightarrow> c | None \<Rightarrow> []) rq
                       else is_list_request w (endpoint a) rq) new"
proof (induction vs arbitrary: st)
  case Nil
  show ?case by simp
next
  case (Cons entry vs)
  let ?P = "\<lambda>rq. if both_names a
                       then is_query_request w (endpoint a)
                              (case database_name a of Some d \<Rightarrow> d | None \<Rightarrow> [])
                              (case collection_name a of Some c \<Rightarrow> c | None \<Rightarrow> []) rq
                       else is_list_request w (endpoint a) rq"
  obtain st' res where pr: "probe w a entry st = (st', res)"
    by (cases "probe w a entry st")
  from probe_new_requests [of w a entry st] pr obtain new1 where
    n1: "reqs st' = reqs st @ new1" "list_all ?P new1"
    by auto
  show ?case
  proof (cases res)
    case (Some e)
    with pr n1 show ?thesis
      by (intro exI [of _ new1]) simp
  next
    case None
    from Cons.IH [of st'] obtain new2 where
      n2: "reqs (fst (probe_loop w a vs st')) = reqs st' @ new2" "list_all ?P new2"
      by blast
    with pr n1 None show ?thesis
      by (intro exI [of _ "new1 @ new2"]) simp
  qed
qed

text \<open>
  Claim C10.  Every request of a run is a query request when a database name and a
  collection name are both given (and neither is empty after stripping), and a list-databases
  request otherwise; in particular, when one of the two names is missing or empty, every
  request is a list-databases request.
\<close>

theorem query_only_with_both_names:
  "list_all
     (\<lambda>rq. if both_names a
               \<and> strip (case database_name a of Some d \<Rightarrow> d | None \<Rightarrow> []) \<noteq> []
               \<and> strip (case collection_name a of Some c \<Rightarrow> c | None \<Rightarrow> []) \<noteq> []
            then is_query_request w (strip (endpoint a))
                   (strip (case database_name a of Some d \<Rightarrow> d | None \<Rightarrow> []))
                   (strip (case collection_name a of Some c \<Rightarrow> c | None \<Rightarrow> [])) rq
            else is_list_request w (strip (endpoint a)) rq)
     (reqs (fst (main w ssl a)))
   \<and> (\<not> both_names a \<longrightarrow> list_all (is_list_request w (strip (endpoint a))) (reqs (fst (main w ssl a))))"
proof -
  from main_unfold [of w ssl a] obtain a3 st3 where
    m: "main w ssl a = probe_loop w a3 (get_supported_ssl_versions ssl) st3" and
    r: "reqs st3 = []" and
    e: "endpoint a3 = strip (endpoint a)" and
    b: "both_names a3 \<longleftrightarrow>
          both_names a
          \<and> strip (case database_name a of Some d \<Rightarrow> d | None \<Rightarrow> []) \<noteq> []
          \<and> strip (case collection_name a of Some c \<Rightarrow> c | None \<Rightarrow> []) \<noteq> []" and
    n: "both_names a \<longrightarrow>
          database_name a3 = Some (strip (case database_name a of Some d \<Rightarrow> d | None \<Rightarrow> []))
          \<and> collection_name a3 = Some (strip (case collection_name a of Some c \<Rightarrow> c | None \<Rightarrow> []))"
    by blast
  from probe_loop_new_requests [of w a3 "get_supported_ssl_versions ssl" st3] m r
  have "list_all (\<lambda>rq. if both_names a3
                       then is_query_request w (endpoint a3)
                              (case database_name a3 of Some d \<Rightarrow> d | None \<Rightarrow> [])
                              (case collection_name a3 of Some c \<Rightarrow> c | None \<Rightarrow> []) rq
                       else is_list_request w (endpoint a3) rq) (reqs (fst (main w ssl a)))"
    by auto
  with e b n show ?thesis
    by (cases "both_names a") (auto simp: list_all_iff)
qed

lemma main_all_answered:
  assumes key: "b64decode (strip (authorization_key a)) = Inr k"
    and net: "\<forall>n rq. \<exists>r. session_request w n rq = Inr r"
  shows "snd (main w ssl a) = None
    \<and> map (\<lambda>rq. Some (req_ssl_version rq)) (reqs (fst (main w ssl a))) =
        filter truthy (map snd (get_supported_ssl_versions ssl))"
proof -
  from main_unfold [of w ssl a] obtain a3 st3 where
    m: "main w ssl a = probe_loop w a3 (get_supported_ssl_versions ssl) st3" and
    r: "reqs st3 = []" and
    k: "authorization_key a3 = strip (authorization_key a)"
    by blast
  from key k have "b64decode (authorization_key a3) = Inr k"
    by simp
  from probe_loop_all_answered [OF this net, of "get_supported_ssl_versions ssl" st3] m r
  show ?thesis
    by simp
qed

lemma unauthorized_answers: "\<forall>n rq. \<exists>r. session_request world_unauthorized n rq = Inr r"
  by (simp add: world_unauthorized_def)

text \<open>
  C10 at a run with only a database name and a run with both names.
\<close>

theorem query_only_with_both_names_witness:
  "\<not> both_names args_one_name
   \<and> map req_ssl_version (reqs (fst (main world_unauthorized ssl_cpython args_one_name))) = [3, 4, 5]
   \<and> list_all (is_list_request world_unauthorized ''https://acct.documents.azure.com:443/'')
       (reqs (fst (main world_unauthorized ssl_cpython args_one_name)))
   \<and> both_names args_both_names
   \<and> map req_ssl_version (reqs (fst (main world_unauthorized ssl_cpython args_both_names))) = [3, 4, 5]
   \<and> list_all (is_query_request world_unauthorized ''https://acct.documents.azure.com:443/'' ''db'' ''coll'')
       (reqs (fst (main world_unauthorized ssl_cpython args_both_names)))"
proof -
  have one: "\<not> both_names args_one_name" and both: "both_names args_both_names"
    by (simp_all add: both_names_def truthy_str_def args_one_name_def args_both_names_def)
  have s: "strip ''db'' = ''db''" "strip ''coll'' = ''coll''"
    by code_simp+
  have k1: "b64decode (strip (authorization_key args_one_name)) = Inr [65, 66, 67]"
    and k2: "b64decode (strip (authorization_key args_both_names)) = Inr [65, 66, 67]"
    by (simp_all add: args_one_name_def args_both_names_def strip_QUJD b64decode_QUJD)
  have "map (\<lambda>rq. Some (req_ssl_version rq)) (reqs (fst (main world_unauthorized ssl_cpython args_one_name)))
      = [Some 3, Some 4, Some 5]"
    using main_all_answered [OF k1 unauthorized_answers, of ssl_cpython]
    by (simp add: versions_cpython truthy_def)
  then have v1: "map req_ssl_version (reqs (fst (main world_unauthorized ssl_cpython args_one_name))) = [3, 4, 5]"
    by (auto simp: map_eq_Cons_conv)
  have "map (\<lambda>rq. Some (req_ssl_version rq)) (reqs (fst (main world_unauthorized ssl_cpython args_both_names)))
      = [Some 3, Some 4, Some 5]"
    using main_all_answered [OF k2 unauthorized_answers, of ssl_cpython]
    by (simp add: versions_cpython truthy_def)
  then have v2: "map req_ssl_version (reqs (fst (main world_unauthorized ssl_cpython args_both_names))) = [3, 4, 5]"
    by (auto simp: map_eq_Cons_conv)
  have l1: "list_all (is_list_request world_unauthorized ''https://acct.documents.azure.com:443/'')
       (reqs (fst (main world_unauthorized ssl_cpython args_one_name)))"
    using query_only_with_both_names [of args_one_name world_unauthorized ssl_cpython] one
    by (simp add: args_one_name_def strip_endpoint)
  have l2: "list_all (is_query_request world_unauthorized ''https://acct.documents.azure.com:443/'' ''db'' ''coll'')
       (reqs (fst (main world_unauthorized ssl_cpython args_both_names)))"
    using query_only_with_both_names [of args_both_names world_unauthorized ssl_cpython] both
    by (simp add: args_both_names_def strip_endpoint s)
  from one both v1 v2 l1 l2 show ?thesis
    by blast
qed

section \<open>Runs against concrete servers\<close>






text \<open>
  C7 at the key \<open>QUJD\<close>.
\<close>

theorem token_pattern_witness:
  "b64decode ''QUJD'' = Inr [65, 66, 67]
   \<and> (\<exists>tok sig. get_auth_header ''QUJD'' ''GET'' ''dbs'' [] ''Tue, 01 Nov 1994 08:12:31 GMT'' = Inr tok
           \<and> percent_decode tok = ''type=master&ver=1.0&sig='' @ sig
           \<and> length sig = 44
           \<and> set sig \<subseteq> insert CHR ''='' (set b64_alphabet)
           \<and> quote (percent_decode tok) = tok)"
  using token_pattern [OF b64decode_QUJD] b64decode_QUJD by blast


end
